theory Spec2Isabelle
  imports Complex_Main
begin

section \<open>The X-Ray trace builder (src/unnamed/part 000)\<close>

text \<open>
  The core SDK is one TypeScript class, \<open>XRay\<close>, that owns one \<open>XRayExecution\<close> object
  and mutates it in place. The embedding below passes the object explicitly: every
  method takes the builder and returns the builder after the call. The two effects the
  class reads from its environment are arguments of the model:
  \<^item> each evaluation of \<open>Date.now()\<close> is an \<open>int\<close> argument (milliseconds since the epoch;
    the values are integers far below \<open>2^53\<close>, so the subtraction of two of them is exact
    and \<open>int\<close> arithmetic is what the code computes);
  \<^item> the string \<open>Math.random().toString(36)\<close> is a \<open>string\<close> argument; the code's
    \<open>.substr(2, 9)\<close> on it is part of the model.
\<close>

subsection \<open>JavaScript values of type \<open>any\<close>\<close>

text \<open>
  \<open>Record<string, any>\<close> is an object with string keys: an association list in insertion
  order. The builder never looks inside such a value, it only stores it. Numbers inside
  payloads (and the optional confidence of a decision) are stored and never computed
  with; they are modelled as \<open>real\<close>.
\<close>

datatype jsany =
    JUndefined
  | JNull
  | JBool bool
  | JNumber real
  | JString string
  | JArray "jsany list"
  | JObject "(string \<times> jsany) list"

type_synonym jsrecord = "(string \<times> jsany) list"

subsection \<open>The interfaces\<close>

text \<open>\<open>outcome: "pass" | "fail" | "select" | "filter" | "evaluate"\<close>\<close>

datatype Outcome = pass | fail | select | filter' | evaluate

record XRayDecision =
  outcome :: Outcome
  reason :: string
  confidence :: "real option"

text \<open>
  The fields of \<open>XRayEvaluation\<close> are \<open>id?\<close>, \<open>passed\<close>, \<open>reason\<close>, \<open>metadata?\<close>; they carry
  the prefix \<open>ev_\<close> here because \<open>id\<close> is a HOL constant and \<open>reason\<close>, \<open>metadata\<close> are
  fields of other interfaces too.
\<close>

record XRayEvaluation =
  ev_id :: "string option"
  ev_passed :: bool
  ev_reason :: string
  ev_metadata :: "jsrecord option"

text \<open>The field \<open>output\<close> is written \<open>output'\<close>: \<open>output\<close> is a keyword of Isabelle.\<close>

record XRayStep =
  index :: nat
  step :: string
  timestamp :: int
  input :: jsrecord
  output' :: jsrecord
  reasoning :: string
  decision :: "XRayDecision option"
  metadata :: "jsrecord option"

record ExecutionSummary =
  totalSteps :: nat
  finalOutcome :: "string option"

text \<open>\<open>status: "completed" | "failed" | "in_progress"\<close>\<close>

datatype Status = completed | failed | in_progress

text \<open>The optional field \<open>_id\<close> (set by the storage layer only) is written \<open>db_id\<close>.\<close>

record XRayExecution =
  db_id :: "string option"
  executionId :: string
  name :: string
  status :: Status
  steps :: "XRayStep list"
  createdAt :: int
  completedAt :: "int option"
  duration :: "int option"
  summary :: "ExecutionSummary option"

text \<open>\<open>class XRay { private execution: XRayExecution ... }\<close>\<close>

record XRay =
  execution :: XRayExecution

subsection \<open>Strings built by the constructor\<close>

text \<open>
  A template literal converts the number \<open>Date.now()\<close> with \<open>Number::toString\<close>: for an
  integer of magnitude below \<open>10^21\<close> that is its decimal digits, with a leading minus
  sign when negative.
\<close>

fun show_nat :: "nat \<Rightarrow> string" where
  "show_nat n =
     (if n < 10 then [''0123456789'' ! n]
      else show_nat (n div 10) @ [''0123456789'' ! (n mod 10)])"

declare show_nat.simps [simp del]

definition show_int :: "int \<Rightarrow> string" where
  "show_int i = (if i < 0 then ''-'' @ show_nat (nat (- i)) else show_nat (nat i))"

text \<open>\<open>s.substr(start, len)\<close> for \<open>start, len \<ge> 0\<close>.\<close>

definition substr :: "nat \<Rightarrow> nat \<Rightarrow> string \<Rightarrow> string" where
  "substr start len s = take len (drop start s)"

text \<open>
  \<open>`exec_${Date.now()}_${Math.random().toString(36).substr(2, 9)}`\<close>, with \<open>t\<close> the clock
  reading and \<open>r36\<close> the string \<open>Math.random().toString(36)\<close>.
\<close>

definition generatedId :: "int \<Rightarrow> string \<Rightarrow> string" where
  "generatedId t r36 = ''exec_'' @ show_int t @ ''_'' @ substr 2 9 r36"

subsection \<open>The methods\<close>

text \<open>
  \<open>constructor(name, executionId?)\<close>. \<open>executionId || ...\<close> takes the right operand when
  the left one is falsy: \<open>undefined\<close> (\<open>None\<close>) or the empty string. \<open>t_id\<close> and \<open>r36\<close> are
  the clock reading and the random string of the right operand (read only when it is
  evaluated); \<open>t_created\<close> is the later clock reading of \<open>createdAt: Date.now()\<close>.
\<close>

definition XRay_constructor :: "string \<Rightarrow> string option \<Rightarrow> int \<Rightarrow> string \<Rightarrow> int \<Rightarrow> XRay" where
  "XRay_constructor nm execId t_id r36 t_created =
     \<lparr>execution =
        \<lparr>db_id = None,
         executionId =
           (case execId of
              None \<Rightarrow> generatedId t_id r36
            | Some s \<Rightarrow> if s \<noteq> [] then s else generatedId t_id r36),
         name = nm,
         status = in_progress,
         steps = [],
         createdAt = t_created,
         completedAt = None,
         duration = None,
         summary = None\<rparr>\<rparr>"

definition createXRay :: "string \<Rightarrow> string option \<Rightarrow> int \<Rightarrow> string \<Rightarrow> int \<Rightarrow> XRay" where
  "createXRay nm execId t_id r36 t_created = XRay_constructor nm execId t_id r36 t_created"

text \<open>\<open>recordStep(stepName, input, output, reasoning, decision?, metadata?)\<close>; \<open>now\<close> is
  the reading of \<open>Date.now()\<close> for the timestamp.\<close>

definition recordStep ::
  "string \<Rightarrow> jsrecord \<Rightarrow> jsrecord \<Rightarrow> string \<Rightarrow> XRayDecision option \<Rightarrow> jsrecord option
     \<Rightarrow> int \<Rightarrow> XRay \<Rightarrow> XRay" where
  "recordStep stepName inp outp reasoning_text dec meta now x =
     (let new_step =
        \<lparr>index = length (steps (execution x)) + 1,
         step = stepName,
         timestamp = now,
         input = inp,
         output' = outp,
         reasoning = reasoning_text,
         decision = dec,
         metadata = meta\<rparr>
      in x\<lparr>execution := (execution x)\<lparr>steps := steps (execution x) @ [new_step]\<rparr>\<rparr>)"

text \<open>
  The argument object of \<open>recordEvaluationStep\<close>; its fields \<open>step\<close>, \<open>input\<close>,
  \<open>evaluations\<close>, \<open>output\<close>, \<open>reasoning\<close>, \<open>confidence?\<close> carry the prefix \<open>p_\<close>.
\<close>

record EvaluationStepParams =
  p_step :: string
  p_input :: jsrecord
  p_evaluations :: "XRayEvaluation list"
  p_output :: jsrecord
  p_reasoning :: string
  p_confidence :: "real option"

text \<open>
  An \<open>XRayEvaluation\<close> object stored under a key of type \<open>any\<close>: the same object, seen as
  a plain object. An optional field that is absent is no key.
\<close>

definition optional_field :: "string \<Rightarrow> ('a \<Rightarrow> jsany) \<Rightarrow> 'a option \<Rightarrow> jsrecord" where
  "optional_field k f v = (case v of None \<Rightarrow> [] | Some a \<Rightarrow> [(k, f a)])"

definition evaluation_any :: "XRayEvaluation \<Rightarrow> jsany" where
  "evaluation_any ev =
     JObject (optional_field ''id'' JString (ev_id ev)
              @ [(''passed'', JBool (ev_passed ev)), (''reason'', JString (ev_reason ev))]
              @ optional_field ''metadata'' JObject (ev_metadata ev))"

definition recordEvaluationStep :: "EvaluationStepParams \<Rightarrow> int \<Rightarrow> XRay \<Rightarrow> XRay" where
  "recordEvaluationStep params now x =
     recordStep
       (p_step params)
       (p_input params)
       (p_output params)
       (p_reasoning params)
       (Some \<lparr>outcome = evaluate,
              reason = ''Evaluation completed'',
              confidence = p_confidence params\<rparr>)
       (Some [(''evaluations'', JArray (map evaluation_any (p_evaluations params)))])
       now x"

text \<open>\<open>markComplete(finalOutcome?)\<close>; \<open>now\<close> is the reading of \<open>Date.now()\<close>. The duration
  reads the \<open>completedAt\<close> assigned on the line before, which is \<open>now\<close>.\<close>

definition markComplete :: "string option \<Rightarrow> int \<Rightarrow> XRay \<Rightarrow> XRay" where
  "markComplete final now x =
     (let e1 = (execution x)\<lparr>status := completed\<rparr>;
          e2 = e1\<lparr>completedAt := Some now\<rparr>;
          e3 = e2\<lparr>duration := Some (now - createdAt e2)\<rparr>;
          e4 = e3\<lparr>summary := Some \<lparr>totalSteps = length (steps e3), finalOutcome = final\<rparr>\<rparr>
      in x\<lparr>execution := e4\<rparr>)"

text \<open>
  \<open>markFailed(error?)\<close>. The guard \<open>error && steps.length > 0\<close> holds when \<open>error\<close> is a
  non-empty string and there is a step; then the last step object is updated in place.
\<close>

definition markFailed :: "string option \<Rightarrow> int \<Rightarrow> XRay \<Rightarrow> XRay" where
  "markFailed error now x =
     (let e1 = (execution x)\<lparr>status := failed\<rparr>;
          e2 = e1\<lparr>completedAt := Some now\<rparr>;
          e3 = e2\<lparr>duration := Some (now - createdAt e2)\<rparr>;
          e4 = (case error of
                  None \<Rightarrow> e3
                | Some msg \<Rightarrow>
                    if msg \<noteq> [] \<and> length (steps e3) > 0 then
                      (let lastStep = steps e3 ! (length (steps e3) - 1)
                       in e3\<lparr>steps := (steps e3)[length (steps e3) - 1 :=
                               lastStep\<lparr>reasoning :=
                                 reasoning lastStep @ '' [ERROR: '' @ msg @ '']''\<rparr>]\<rparr>)
                    else e3)
      in x\<lparr>execution := e4\<rparr>)"

text \<open>\<open>serialize()\<close> and \<open>getExecution()\<close> return the execution object; the pair is the
  returned value and the builder after the call.\<close>

definition serialize :: "XRay \<Rightarrow> XRayExecution \<times> XRay" where
  "serialize x = (execution x, x)"

definition getExecution :: "XRay \<Rightarrow> XRayExecution \<times> XRay" where
  "getExecution x = (execution x, x)"

subsection \<open>Sequences of calls\<close>

text \<open>
  A caller drives the builder by a sequence of method calls. A call is the method with
  its arguments and the clock reading it sees.
\<close>

datatype Call =
    RecordStep string jsrecord jsrecord string "XRayDecision option" "jsrecord option" int
  | RecordEvaluationStep EvaluationStepParams int
  | MarkComplete "string option" int
  | MarkFailed "string option" int

fun call :: "Call \<Rightarrow> XRay \<Rightarrow> XRay" where
  "call (RecordStep s i ou r d m now) x = recordStep s i ou r d m now x"
| "call (RecordEvaluationStep params now) x = recordEvaluationStep params now x"
| "call (MarkComplete final now) x = markComplete final now x"
| "call (MarkFailed error now) x = markFailed error now x"

fun calls :: "Call list \<Rightarrow> XRay \<Rightarrow> XRay" where
  "calls [] x = x"
| "calls (c # cs) x = calls cs (call c x)"

fun isRecordStep :: "Call \<Rightarrow> bool" where
  "isRecordStep (RecordStep s i ou r d m now) = True"
| "isRecordStep _ = False"

fun isMarkComplete :: "Call \<Rightarrow> bool" where
  "isMarkComplete (MarkComplete final now) = True"
| "isMarkComplete _ = False"

subsection \<open>A concrete run\<close>

text \<open>The first scenario of the specification: two steps recorded on a fresh execution.\<close>

definition demo_calls :: "Call list" where
  "demo_calls =
     [RecordStep ''a'' [(''x'', JNumber 1)] [(''y'', JNumber 2)] ''did a'' None None 10,
      RecordStep ''b'' [] [] ''did b''
        (Some \<lparr>outcome = filter', reason = ''r'', confidence = Some 0.8\<rparr>) None 20]"

text \<open>The second scenario: one step, then failure with the message \<open>boom\<close>.\<close>

definition only_step_calls :: "Call list" where
  "only_step_calls = [RecordStep ''only'' [] [] ''did it'' None None 10]"

definition failed_calls :: "Call list" where
  "failed_calls = only_step_calls @ [MarkFailed (Some ''boom'') 30]"

text \<open>The first scenario closed with \<open>markComplete("done")\<close>.\<close>

definition completed_calls :: "Call list" where
  "completed_calls = demo_calls @ [MarkComplete (Some ''done'') 30]"

text \<open>The same run, then \<open>markFailed()\<close>: a failed execution that was completed before.\<close>

definition completed_then_failed_calls :: "Call list" where
  "completed_then_failed_calls = completed_calls @ [MarkFailed None 40]"

text \<open>A freshly constructed execution named \<open>Demo\<close>, created at clock reading 5.\<close>

definition demo_fresh :: XRay where
  "demo_fresh = XRay_constructor ''Demo'' None 5 ''0.4fzyo82mvyr'' 5"

text \<open>
  The closing fields agree with the status: none is set while the execution is in
  progress, \<open>completedAt\<close> and \<open>duration\<close> are set once it is closed, and \<open>summary\<close> is set
  when it is completed.
\<close>

definition closing_inv :: "XRayExecution \<Rightarrow> bool" where
  "closing_inv e =
     ((status e = in_progress \<longrightarrow> completedAt e = None \<and> duration e = None \<and> summary e = None)
      \<and> (status e \<noteq> in_progress \<longrightarrow> completedAt e \<noteq> None \<and> duration e \<noteq> None)
      \<and> (status e = completed \<longrightarrow> summary e \<noteq> None))"

section \<open>Properties\<close>

subsection \<open>Step indices\<close>

lemma steps_recordStep:
  "steps (execution (recordStep s i ou r d m now x)) =
     steps (execution x) @
       [\<lparr>index = length (steps (execution x)) + 1, step = s, timestamp = now, input = i,
         output' = ou, reasoning = r, decision = d, metadata = m\<rparr>]"
  by (simp add: recordStep_def)

lemma steps_recordEvaluationStep:
  "\<exists>st. steps (execution (recordEvaluationStep p now x)) = steps (execution x) @ [st]
        \<and> index st = length (steps (execution x)) + 1"
  by (simp add: recordEvaluationStep_def steps_recordStep)

lemma steps_constructor: "steps (execution (XRay_constructor nm eid t r t')) = []"
  by (simp add: XRay_constructor_def)

lemma indices_calls_recordStep:
  "list_all isRecordStep cs \<Longrightarrow>
     map index (steps (execution (calls cs x))) =
       map index (steps (execution x)) @
         [length (steps (execution x)) + 1 ..< length (steps (execution x)) + 1 + length cs]"
proof (induction cs arbitrary: x)
  case Nil
  then show ?case by simp
next
  case (Cons c cs)
  from Cons.prems obtain s i ou r d m now where c: "c = RecordStep s i ou r d m now"
    by (cases c) auto
  from Cons.prems have rest: "list_all isRecordStep cs" by simp
  let ?n = "length (steps (execution x))"
  have "[?n + 1 ..< ?n + 1 + length (c # cs)] = (?n + 1) # [?n + 2 ..< ?n + 2 + length cs]"
    by (simp add: upt_rec)
  with Cons.IH [OF rest, of "call c x"] show ?case
    by (simp add: c steps_recordStep)
qed

text \<open>
  C1. Appending a step puts it last with index "current step count + 1"; after any
  sequence of N \<open>recordStep\<close> calls on a freshly constructed execution the steps have
  length N, the step at position k (0-based) has index k + 1, and the indices are
  1, 2, ..., N: strictly increasing, without gaps.
\<close>

theorem recordStep_indices:
  "steps (execution (recordStep s i ou r d m now x)) =
     steps (execution x) @
       [\<lparr>index = length (steps (execution x)) + 1, step = s, timestamp = now, input = i,
         output' = ou, reasoning = r, decision = d, metadata = m\<rparr>]
   \<and> index (last (steps (execution (recordStep s i ou r d m now x)))) =
       length (steps (execution x)) + 1
   \<and> (list_all isRecordStep cs \<longrightarrow>
        length (steps (execution (calls cs (XRay_constructor nm eid t r36 t')))) = length cs
      \<and> (\<forall>k < length cs.
            index (steps (execution (calls cs (XRay_constructor nm eid t r36 t'))) ! k) = k + 1)
      \<and> map index (steps (execution (calls cs (XRay_constructor nm eid t r36 t')))) =
            [1 ..< length cs + 1]
      \<and> sorted_wrt (<) (map index (steps (execution (calls cs (XRay_constructor nm eid t r36 t'))))))"
proof -
  let ?fresh = "XRay_constructor nm eid t r36 t'"
  have one: "steps (execution (recordStep s i ou r d m now x)) =
     steps (execution x) @
       [\<lparr>index = length (steps (execution x)) + 1, step = s, timestamp = now, input = i,
         output' = ou, reasoning = r, decision = d, metadata = m\<rparr>]"
    by (rule steps_recordStep)
  have lst: "index (last (steps (execution (recordStep s i ou r d m now x)))) =
       length (steps (execution x)) + 1"
    by (simp add: one)
  have many: "length (steps (execution (calls cs ?fresh))) = length cs
      \<and> (\<forall>k < length cs. index (steps (execution (calls cs ?fresh)) ! k) = k + 1)
      \<and> map index (steps (execution (calls cs ?fresh))) = [1 ..< length cs + 1]
      \<and> sorted_wrt (<) (map index (steps (execution (calls cs ?fresh))))"
    if rs: "list_all isRecordStep cs"
  proof -
    have m: "map index (steps (execution (calls cs ?fresh))) = [1 ..< length cs + 1]"
      using indices_calls_recordStep [OF rs, of ?fresh] by (simp add: steps_constructor)
    have len: "length (steps (execution (calls cs ?fresh))) = length cs"
    proof -
      have "length (map index (steps (execution (calls cs ?fresh)))) = length [1 ..< length cs + 1]"
        by (simp only: m)
      then show ?thesis by (simp del: upt_Suc)
    qed
    have nth: "index (steps (execution (calls cs ?fresh)) ! k) = k + 1" if "k < length cs" for k
    proof -
      have "map index (steps (execution (calls cs ?fresh))) ! k = [1 ..< length cs + 1] ! k"
        by (simp only: m)
      with that len show ?thesis by (simp del: upt_Suc)
    qed
    have "sorted_wrt (<) [1 ..< length cs + 1]" by (rule sorted_wrt_upt)
    then have srt: "sorted_wrt (<) (map index (steps (execution (calls cs ?fresh))))"
      by (simp only: m)
    from m len nth srt show ?thesis by blast
  qed
  from one lst many show ?thesis by blast
qed

text \<open>The two-step run satisfies the hypothesis and has indices 1 and 2.\<close>

theorem recordStep_indices_witness:
  "list_all isRecordStep demo_calls
   \<and> length (steps (execution (calls demo_calls (XRay_constructor ''Demo'' None 5 ''0.4fzyo82mvyr'' 5)))) = 2
   \<and> map index (steps (execution (calls demo_calls (XRay_constructor ''Demo'' None 5 ''0.4fzyo82mvyr'' 5)))) = [1, 2]
   \<and> index (steps (execution (calls demo_calls (XRay_constructor ''Demo'' None 5 ''0.4fzyo82mvyr'' 5))) ! 0) = 1
   \<and> index (steps (execution (calls demo_calls (XRay_constructor ''Demo'' None 5 ''0.4fzyo82mvyr'' 5))) ! 1) = 2"
proof -
  have h: "list_all isRecordStep demo_calls" by (simp add: demo_calls_def)
  have l: "length demo_calls = 2" by (simp add: demo_calls_def)
  have u: "[1 ..< Suc 2] = [1, 2]" by (simp add: upt_rec)
  from recordStep_indices [of _ _ _ _ _ _ _ _ demo_calls "''Demo''" None 5 "''0.4fzyo82mvyr''" 5] h l u
  show ?thesis by simp
qed

subsection \<open>The effect of each method on the fields\<close>

lemma execution_recordStep:
  "execution (recordStep s i ou r d m now x) =
     (execution x)\<lparr>steps := steps (execution x) @
       [\<lparr>index = length (steps (execution x)) + 1, step = s, timestamp = now, input = i,
         output' = ou, reasoning = r, decision = d, metadata = m\<rparr>]\<rparr>"
  by (simp add: recordStep_def)

lemma execution_markComplete:
  "execution (markComplete final now x) =
     (execution x)\<lparr>status := completed, completedAt := Some now,
                   duration := Some (now - createdAt (execution x)),
                   summary := Some \<lparr>totalSteps = length (steps (execution x)),
                                    finalOutcome = final\<rparr>\<rparr>"
  by (simp add: markComplete_def)

lemma markFailed_fields:
  "status (execution (markFailed err now x)) = failed"
  "completedAt (execution (markFailed err now x)) = Some now"
  "duration (execution (markFailed err now x)) = Some (now - createdAt (execution x))"
  "summary (execution (markFailed err now x)) = summary (execution x)"
  "createdAt (execution (markFailed err now x)) = createdAt (execution x)"
  "executionId (execution (markFailed err now x)) = executionId (execution x)"
  "name (execution (markFailed err now x)) = name (execution x)"
  "db_id (execution (markFailed err now x)) = db_id (execution x)"
  "length (steps (execution (markFailed err now x))) = length (steps (execution x))"
  by (simp_all add: markFailed_def Let_def split: option.split)

lemma update_last: "xs \<noteq> [] \<Longrightarrow> xs[length xs - Suc 0 := v] = butlast xs @ [v]"
  by (cases xs rule: rev_cases) auto

lemma markFailed_steps_annotated:
  assumes "msg \<noteq> []" and "steps (execution x) \<noteq> []"
  shows "steps (execution (markFailed (Some msg) now x)) =
           butlast (steps (execution x)) @
             [(last (steps (execution x)))\<lparr>reasoning :=
                reasoning (last (steps (execution x))) @ '' [ERROR: '' @ msg @ '']''\<rparr>]"
  using assms
  by (simp add: markFailed_def Let_def update_last last_conv_nth)

lemma markFailed_steps_same:
  "err = None \<or> err = Some [] \<or> steps (execution x) = [] \<Longrightarrow>
     steps (execution (markFailed err now x)) = steps (execution x)"
  by (auto simp add: markFailed_def Let_def split: option.split)

lemma markFailed_no_steps:
  "steps (execution x) = [] \<Longrightarrow>
     execution (markFailed err now x) =
       (execution x)\<lparr>status := failed, completedAt := Some now,
                     duration := Some (now - createdAt (execution x))\<rparr>"
  by (simp add: markFailed_def Let_def split: option.split)

subsection \<open>Closing with failure\<close>

text \<open>
  C2 (amended). \<open>markFailed(error)\<close> sets status to failed, \<open>completedAt\<close> to the current
  time and \<open>duration\<close> to \<open>completedAt - createdAt\<close>, and leaves \<open>summary\<close> as it was. If
  \<open>error\<close> is a non-empty string and there is at least one step, the last step's reasoning
  gets the suffix \<open>" [ERROR: " + error + "]"\<close> and nothing else of any step changes; every
  step but the last is untouched in all cases. If \<open>error\<close> is absent or the empty string
  the steps are unchanged. With no steps the state changes in status, \<open>completedAt\<close> and
  \<open>duration\<close> only.
\<close>

theorem markFailed_effect:
  "status (execution (markFailed err now x)) = failed
   \<and> completedAt (execution (markFailed err now x)) = Some now
   \<and> duration (execution (markFailed err now x)) = Some (now - createdAt (execution x))
   \<and> summary (execution (markFailed err now x)) = summary (execution x)
   \<and> (\<forall>msg. err = Some msg \<and> msg \<noteq> [] \<and> steps (execution x) \<noteq> [] \<longrightarrow>
         steps (execution (markFailed err now x)) =
           butlast (steps (execution x)) @
             [(last (steps (execution x)))\<lparr>reasoning :=
                reasoning (last (steps (execution x))) @ '' [ERROR: '' @ msg @ '']''\<rparr>])
   \<and> (\<forall>k. k + 1 < length (steps (execution x)) \<longrightarrow>
         steps (execution (markFailed err now x)) ! k = steps (execution x) ! k)
   \<and> (err = None \<or> err = Some [] \<longrightarrow>
         steps (execution (markFailed err now x)) = steps (execution x))
   \<and> (steps (execution x) = [] \<longrightarrow>
         execution (markFailed err now x) =
           (execution x)\<lparr>status := failed, completedAt := Some now,
                         duration := Some (now - createdAt (execution x))\<rparr>)"
proof -
  have others: "steps (execution (markFailed err now x)) ! k = steps (execution x) ! k"
    if k: "k + 1 < length (steps (execution x))" for k
  proof (cases "\<exists>msg. err = Some msg \<and> msg \<noteq> []")
    case True
    then obtain msg where e: "err = Some msg" and m: "msg \<noteq> []" by blast
    from k have ne: "steps (execution x) \<noteq> []" by auto
    from k have kb: "k < length (butlast (steps (execution x)))" by simp
    show ?thesis
      using kb by (simp add: e markFailed_steps_annotated [OF m ne] nth_append nth_butlast)
  next
    case False
    then have "err = None \<or> err = Some [] \<or> steps (execution x) = []" by (cases err) auto
    from markFailed_steps_same [OF this] show ?thesis by simp
  qed
  show ?thesis
    using others
    by (simp add: markFailed_fields markFailed_steps_annotated markFailed_steps_same
        markFailed_no_steps)
qed

text \<open>
  The second scenario: after one step, \<open>markFailed("boom")\<close> makes the reasoning end with
  \<open>[ERROR: boom]\<close>; on the fresh execution the message is dropped.
\<close>

theorem markFailed_effect_witness:
  "steps (execution (calls only_step_calls demo_fresh)) \<noteq> []
   \<and> map reasoning (steps (execution (markFailed (Some ''boom'') 30 (calls only_step_calls demo_fresh))))
       = [''did it [ERROR: boom]'']
   \<and> steps (execution demo_fresh) = []
   \<and> execution (markFailed (Some ''boom'') 30 demo_fresh) =
       (execution demo_fresh)\<lparr>status := failed, completedAt := Some 30, duration := Some 25\<rparr>
   \<and> map reasoning (steps (execution (markFailed None 30 (calls demo_calls demo_fresh))))
       = [''did a'', ''did b'']
   \<and> steps (execution (markFailed (Some ''boom'') 30 (calls demo_calls demo_fresh))) ! 0
       = steps (execution (calls demo_calls demo_fresh)) ! 0"
proof -
  have s1: "steps (execution (calls only_step_calls demo_fresh)) =
    [\<lparr>index = 1, step = ''only'', timestamp = 10, input = [], output' = [],
      reasoning = ''did it'', decision = None, metadata = None\<rparr>]"
    by (simp add: only_step_calls_def demo_fresh_def XRay_constructor_def recordStep_def)
  have s0: "steps (execution demo_fresh) = []"
    by (simp add: demo_fresh_def XRay_constructor_def)
  have c0: "createdAt (execution demo_fresh) = 5"
    by (simp add: demo_fresh_def XRay_constructor_def)
  have s2: "map reasoning (steps (execution (calls demo_calls demo_fresh))) = [''did a'', ''did b'']"
    and l2: "length (steps (execution (calls demo_calls demo_fresh))) = 2"
    by (simp_all add: demo_calls_def demo_fresh_def XRay_constructor_def recordStep_def)
  from markFailed_effect [of "Some ''boom''" 30 "calls only_step_calls demo_fresh"]
    markFailed_effect [of "Some ''boom''" 30 demo_fresh]
    markFailed_effect [of None 30 "calls demo_calls demo_fresh"]
    markFailed_effect [of "Some ''boom''" 30 "calls demo_calls demo_fresh"]
    s1 s0 c0 s2 l2
  show ?thesis by simp
qed

text \<open>
  C2 as stated fails for the empty message: \<open>markFailed("")\<close> on an execution with one
  step provides an error, and the last step's reasoning does not get the suffix
  \<open>" [ERROR: ]"\<close>.
\<close>

theorem markFailed_empty_error_counterexample:
  "steps (execution (calls only_step_calls demo_fresh)) \<noteq> []
   \<and> reasoning (last (steps (execution
        (markFailed (Some '''') 30 (calls only_step_calls demo_fresh))))) \<noteq>
       reasoning (last (steps (execution (calls only_step_calls demo_fresh))))
         @ '' [ERROR: '' @ '''' @ '']''"
  by (simp add: only_step_calls_def demo_fresh_def XRay_constructor_def recordStep_def
      markFailed_def)


subsection \<open>Closing with success\<close>

text \<open>
  C3. \<open>markComplete(finalOutcome)\<close> sets status to completed, \<open>completedAt\<close> to the current
  time, \<open>duration\<close> to \<open>completedAt - createdAt\<close> and \<open>summary\<close> to the number of steps at
  that moment together with the given outcome (absent when omitted); steps, creation
  time, identifier and name stay as they were.
\<close>

theorem markComplete_effect:
  "status (execution (markComplete final now x)) = completed
   \<and> completedAt (execution (markComplete final now x)) = Some now
   \<and> duration (execution (markComplete final now x)) = Some (now - createdAt (execution x))
   \<and> summary (execution (markComplete final now x)) =
       Some \<lparr>totalSteps = length (steps (execution x)), finalOutcome = final\<rparr>
   \<and> summary (execution (markComplete None now x)) =
       Some \<lparr>totalSteps = length (steps (execution x)), finalOutcome = None\<rparr>
   \<and> steps (execution (markComplete final now x)) = steps (execution x)
   \<and> createdAt (execution (markComplete final now x)) = createdAt (execution x)
   \<and> executionId (execution (markComplete final now x)) = executionId (execution x)
   \<and> name (execution (markComplete final now x)) = name (execution x)"
  by (simp add: execution_markComplete)

subsection \<open>The closing fields and the status\<close>

lemma closing_inv_call: "closing_inv (execution x) \<Longrightarrow> closing_inv (execution (call c x))"
proof (cases c)
  case (RecordStep s i ou r d m now)
  assume "closing_inv (execution x)"
  then show ?thesis
    by (simp add: RecordStep closing_inv_def execution_recordStep)
next
  case (RecordEvaluationStep params now)
  assume "closing_inv (execution x)"
  then show ?thesis
    by (simp add: RecordEvaluationStep closing_inv_def recordEvaluationStep_def
        execution_recordStep)
next
  case (MarkComplete final now)
  show ?thesis
    by (simp add: MarkComplete closing_inv_def execution_markComplete)
next
  case (MarkFailed err now)
  show ?thesis
    by (simp add: MarkFailed closing_inv_def markFailed_fields)
qed

lemma closing_inv_calls: "closing_inv (execution x) \<Longrightarrow> closing_inv (execution (calls cs x))"
  by (induction cs arbitrary: x) (simp_all add: closing_inv_call)

lemma closing_inv_constructor: "closing_inv (execution (XRay_constructor nm eid t r36 t'))"
  by (simp add: closing_inv_def XRay_constructor_def)

lemma summary_call:
  "(summary (execution (call c x)) \<noteq> None) =
     (summary (execution x) \<noteq> None \<or> isMarkComplete c)"
proof (cases c)
  case (RecordStep s i ou r d m now)
  then show ?thesis by (simp add: execution_recordStep)
next
  case (RecordEvaluationStep params now)
  then show ?thesis by (simp add: recordEvaluationStep_def execution_recordStep)
next
  case (MarkComplete final now)
  then show ?thesis by (simp add: execution_markComplete)
next
  case (MarkFailed err now)
  then show ?thesis by (simp add: markFailed_fields)
qed

lemma summary_calls:
  "(summary (execution (calls cs x)) \<noteq> None) =
     (summary (execution x) \<noteq> None \<or> list_ex isMarkComplete cs)"
proof (induction cs arbitrary: x)
  case Nil
  show ?case by simp
next
  case (Cons c cs)
  have "(summary (execution (calls (c # cs) x)) \<noteq> None) =
          (summary (execution (call c x)) \<noteq> None \<or> list_ex isMarkComplete cs)"
    using Cons.IH [of "call c x"] by simp
  also have "\<dots> = ((summary (execution x) \<noteq> None \<or> isMarkComplete c)
                     \<or> list_ex isMarkComplete cs)"
    by (simp only: summary_call)
  also have "\<dots> = (summary (execution x) \<noteq> None \<or> list_ex isMarkComplete (c # cs))"
    by auto
  finally show ?case .
qed

text \<open>
  C4 (amended). For every execution reached from construction by any sequence of builder
  calls: while status is in progress, \<open>completedAt\<close>, \<open>duration\<close> and \<open>summary\<close> are all
  undefined; once status is not in progress, \<open>completedAt\<close> and \<open>duration\<close> are defined;
  when status is completed, \<open>summary\<close> is defined; and \<open>summary\<close> is defined exactly when
  the sequence contains a \<open>markComplete\<close> call, so after \<open>markFailed\<close> it is defined only
  if an earlier \<open>markComplete\<close> set it.
\<close>

theorem closing_fields_reachable:
  "(status (execution (calls cs (XRay_constructor nm eid t r36 t'))) = in_progress \<longrightarrow>
      completedAt (execution (calls cs (XRay_constructor nm eid t r36 t'))) = None
    \<and> duration (execution (calls cs (XRay_constructor nm eid t r36 t'))) = None
    \<and> summary (execution (calls cs (XRay_constructor nm eid t r36 t'))) = None)
   \<and> (status (execution (calls cs (XRay_constructor nm eid t r36 t'))) \<noteq> in_progress \<longrightarrow>
      completedAt (execution (calls cs (XRay_constructor nm eid t r36 t'))) \<noteq> None
    \<and> duration (execution (calls cs (XRay_constructor nm eid t r36 t'))) \<noteq> None)
   \<and> (status (execution (calls cs (XRay_constructor nm eid t r36 t'))) = completed \<longrightarrow>
      summary (execution (calls cs (XRay_constructor nm eid t r36 t'))) \<noteq> None)
   \<and> (summary (execution (calls cs (XRay_constructor nm eid t r36 t'))) \<noteq> None) =
       list_ex isMarkComplete cs
   \<and> (summary (execution (calls cs (XRay_constructor nm eid t r36 t'))) \<noteq> None \<longrightarrow>
       (\<exists>c \<in> set cs. isMarkComplete c))"
proof -
  let ?e = "execution (calls cs (XRay_constructor nm eid t r36 t'))"
  have inv: "closing_inv ?e"
    by (rule closing_inv_calls [OF closing_inv_constructor])
  have "summary (execution (XRay_constructor nm eid t r36 t')) = None"
    by (simp add: XRay_constructor_def)
  with summary_calls [of cs "XRay_constructor nm eid t r36 t'"]
  have iff: "(summary ?e \<noteq> None) = list_ex isMarkComplete cs"
    by simp
  then have ex: "summary ?e \<noteq> None \<longrightarrow> (\<exists>c \<in> set cs. isMarkComplete c)"
    by (simp add: list_ex_iff)
  from inv iff ex show ?thesis
    unfolding closing_inv_def by blast
qed

lemma status_demo: "status (execution (calls demo_calls (XRay_constructor ''Demo'' None 5 ''0.4fzyo82mvyr'' 5))) = in_progress"
  by (simp add: demo_calls_def XRay_constructor_def recordStep_def)

lemma status_completed_calls:
  "status (execution (calls completed_calls (XRay_constructor ''Demo'' None 5 ''0.4fzyo82mvyr'' 5))) = completed"
  by (simp add: completed_calls_def demo_calls_def XRay_constructor_def recordStep_def
      markComplete_def)

lemma status_failed_calls:
  "status (execution (calls failed_calls (XRay_constructor ''Demo'' None 5 ''0.4fzyo82mvyr'' 5))) = failed"
  by (simp add: failed_calls_def only_step_calls_def XRay_constructor_def recordStep_def
      markFailed_def)

lemma status_completed_then_failed_calls:
  "status (execution (calls completed_then_failed_calls
      (XRay_constructor ''Demo'' None 5 ''0.4fzyo82mvyr'' 5))) = failed"
  by (simp add: completed_then_failed_calls_def completed_calls_def demo_calls_def
      XRay_constructor_def recordStep_def markComplete_def markFailed_def)

text \<open>
  The three statuses are reached by the runs of the two scenarios; the failed run has no
  \<open>markComplete\<close> call and no summary, and the run that fails after completing keeps one.
\<close>

theorem closing_fields_reachable_witness:
  "status (execution (calls demo_calls (XRay_constructor ''Demo'' None 5 ''0.4fzyo82mvyr'' 5))) = in_progress
   \<and> completedAt (execution (calls demo_calls (XRay_constructor ''Demo'' None 5 ''0.4fzyo82mvyr'' 5))) = None
   \<and> duration (execution (calls demo_calls (XRay_constructor ''Demo'' None 5 ''0.4fzyo82mvyr'' 5))) = None
   \<and> summary (execution (calls demo_calls (XRay_constructor ''Demo'' None 5 ''0.4fzyo82mvyr'' 5))) = None
   \<and> status (execution (calls completed_calls (XRay_constructor ''Demo'' None 5 ''0.4fzyo82mvyr'' 5))) = completed
   \<and> completedAt (execution (calls completed_calls (XRay_constructor ''Demo'' None 5 ''0.4fzyo82mvyr'' 5))) \<noteq> None
   \<and> duration (execution (calls completed_calls (XRay_constructor ''Demo'' None 5 ''0.4fzyo82mvyr'' 5))) \<noteq> None
   \<and> summary (execution (calls completed_calls (XRay_constructor ''Demo'' None 5 ''0.4fzyo82mvyr'' 5))) \<noteq> None
   \<and> status (execution (calls failed_calls (XRay_constructor ''Demo'' None 5 ''0.4fzyo82mvyr'' 5))) = failed
   \<and> completedAt (execution (calls failed_calls (XRay_constructor ''Demo'' None 5 ''0.4fzyo82mvyr'' 5))) \<noteq> None
   \<and> duration (execution (calls failed_calls (XRay_constructor ''Demo'' None 5 ''0.4fzyo82mvyr'' 5))) \<noteq> None
   \<and> \<not> list_ex isMarkComplete failed_calls
   \<and> summary (execution (calls failed_calls (XRay_constructor ''Demo'' None 5 ''0.4fzyo82mvyr'' 5))) = None
   \<and> status (execution (calls completed_then_failed_calls (XRay_constructor ''Demo'' None 5 ''0.4fzyo82mvyr'' 5))) = failed
   \<and> list_ex isMarkComplete completed_then_failed_calls
   \<and> summary (execution (calls completed_then_failed_calls (XRay_constructor ''Demo'' None 5 ''0.4fzyo82mvyr'' 5))) \<noteq> None"
proof -
  have f: "\<not> list_ex isMarkComplete failed_calls"
    by (simp add: failed_calls_def only_step_calls_def)
  have cf: "list_ex isMarkComplete completed_then_failed_calls"
    by (simp add: completed_then_failed_calls_def completed_calls_def demo_calls_def)
  from closing_fields_reachable [of demo_calls "''Demo''" None 5 "''0.4fzyo82mvyr''" 5]
    closing_fields_reachable [of completed_calls "''Demo''" None 5 "''0.4fzyo82mvyr''" 5]
    closing_fields_reachable [of failed_calls "''Demo''" None 5 "''0.4fzyo82mvyr''" 5]
    closing_fields_reachable [of completed_then_failed_calls "''Demo''" None 5 "''0.4fzyo82mvyr''" 5]
    f cf
  show ?thesis
    by (simp add: status_demo status_completed_calls status_failed_calls
        status_completed_then_failed_calls)
qed

text \<open>
  C4 as stated fails after \<open>markFailed\<close>: the second scenario ends with status failed and
  no summary.
\<close>

theorem failed_without_summary_counterexample:
  "status (execution (calls failed_calls (XRay_constructor ''Demo'' None 5 ''0.4fzyo82mvyr'' 5))) \<noteq> in_progress
   \<and> summary (execution (calls failed_calls (XRay_constructor ''Demo'' None 5 ''0.4fzyo82mvyr'' 5))) = None"
  by (simp add: failed_calls_def only_step_calls_def XRay_constructor_def recordStep_def
      markFailed_def)

subsection \<open>No operation looks at the status\<close>

text \<open>
  C5. In any state, \<open>recordStep\<close> appends a step with index "step count + 1" and leaves
  the status alone, also after \<open>markComplete\<close> or \<open>markFailed\<close>; a closing call on a closed
  execution (completed then failed, failed then completed, or the same call twice) sets
  the status of the later call and overwrites \<open>completedAt\<close>, \<open>duration\<close> and, for
  \<open>markComplete\<close>, \<open>summary\<close>. The methods are total functions: no call fails.
\<close>

theorem no_status_guard:
  "steps (execution (recordStep s i ou r d m now x)) =
     steps (execution x) @
       [\<lparr>index = length (steps (execution x)) + 1, step = s, timestamp = now, input = i,
         output' = ou, reasoning = r, decision = d, metadata = m\<rparr>]
   \<and> status (execution (recordStep s i ou r d m now x)) = status (execution x)
   \<and> status (execution (recordStep s i ou r d m now (markComplete f t1 x))) = completed
   \<and> index (last (steps (execution (recordStep s i ou r d m now (markComplete f t1 x))))) =
       length (steps (execution x)) + 1
   \<and> status (execution (recordStep s i ou r d m now (markFailed err t1 x))) = failed
   \<and> index (last (steps (execution (recordStep s i ou r d m now (markFailed err t1 x))))) =
       length (steps (execution x)) + 1
   \<and> status (execution (markFailed err t2 (markComplete f t1 x))) = failed
   \<and> completedAt (execution (markFailed err t2 (markComplete f t1 x))) = Some t2
   \<and> duration (execution (markFailed err t2 (markComplete f t1 x))) =
       Some (t2 - createdAt (execution x))
   \<and> status (execution (markComplete f t2 (markFailed err t1 x))) = completed
   \<and> completedAt (execution (markComplete f t2 (markFailed err t1 x))) = Some t2
   \<and> duration (execution (markComplete f t2 (markFailed err t1 x))) =
       Some (t2 - createdAt (execution x))
   \<and> summary (execution (markComplete f t2 (markFailed err t1 x))) =
       Some \<lparr>totalSteps = length (steps (execution x)), finalOutcome = f\<rparr>
   \<and> status (execution (markComplete f2 t2 (markComplete f t1 x))) = completed
   \<and> completedAt (execution (markComplete f2 t2 (markComplete f t1 x))) = Some t2
   \<and> duration (execution (markComplete f2 t2 (markComplete f t1 x))) =
       Some (t2 - createdAt (execution x))
   \<and> summary (execution (markComplete f2 t2 (markComplete f t1 x))) =
       Some \<lparr>totalSteps = length (steps (execution x)), finalOutcome = f2\<rparr>
   \<and> status (execution (markFailed err2 t2 (markFailed err t1 x))) = failed
   \<and> completedAt (execution (markFailed err2 t2 (markFailed err t1 x))) = Some t2
   \<and> duration (execution (markFailed err2 t2 (markFailed err t1 x))) =
       Some (t2 - createdAt (execution x))"
  by (simp add: execution_recordStep execution_markComplete markFailed_fields)

subsection \<open>The evaluation step\<close>

text \<open>
  C6. \<open>recordEvaluationStep\<close> gives the very state that \<open>recordStep\<close> gives with the
  decision \<open>{outcome: "evaluate", reason: "Evaluation completed", confidence}\<close> and the
  metadata \<open>{evaluations: ...}\<close>: the execution with that one step appended and nothing
  else changed.
\<close>

theorem recordEvaluationStep_is_recordStep:
  "recordEvaluationStep params now x =
     recordStep (p_step params) (p_input params) (p_output params) (p_reasoning params)
       (Some \<lparr>outcome = evaluate, reason = ''Evaluation completed'',
              confidence = p_confidence params\<rparr>)
       (Some [(''evaluations'', JArray (map evaluation_any (p_evaluations params)))])
       now x
   \<and> execution (recordEvaluationStep params now x) =
       (execution x)\<lparr>steps := steps (execution x) @
         [\<lparr>index = length (steps (execution x)) + 1,
           step = p_step params,
           timestamp = now,
           input = p_input params,
           output' = p_output params,
           reasoning = p_reasoning params,
           decision = Some \<lparr>outcome = evaluate, reason = ''Evaluation completed'',
                             confidence = p_confidence params\<rparr>,
           metadata = Some [(''evaluations'',
                             JArray (map evaluation_any (p_evaluations params)))]\<rparr>]\<rparr>"
  by (simp add: recordEvaluationStep_def execution_recordStep)

subsection \<open>Construction\<close>

text \<open>
  C7. The constructor is a total function (no failure) and yields an execution in
  progress, without steps, created at the current time, with the closing fields unset;
  when no identifier is given, the identifier is \<open>exec_\<close>, the clock reading, \<open>_\<close>, and the
  random component. \<open>createXRay\<close> is the constructor.
\<close>

theorem constructor_fresh:
  "status (execution (XRay_constructor nm eid t r36 t')) = in_progress
   \<and> steps (execution (XRay_constructor nm eid t r36 t')) = []
   \<and> createdAt (execution (XRay_constructor nm eid t r36 t')) = t'
   \<and> name (execution (XRay_constructor nm eid t r36 t')) = nm
   \<and> completedAt (execution (XRay_constructor nm eid t r36 t')) = None
   \<and> duration (execution (XRay_constructor nm eid t r36 t')) = None
   \<and> summary (execution (XRay_constructor nm eid t r36 t')) = None
   \<and> executionId (execution (XRay_constructor nm None t r36 t')) =
       ''exec_'' @ show_int t @ ''_'' @ take 9 (drop 2 r36)
   \<and> createXRay nm eid t r36 t' = XRay_constructor nm eid t r36 t'"
  by (simp add: XRay_constructor_def createXRay_def generatedId_def substr_def)

subsection \<open>Serialization\<close>

text \<open>
  C8. \<open>serialize()\<close> leaves the builder as it was, two calls in a row return equal
  values, and the value returned is the execution, field by field.
\<close>

theorem serialize_projection:
  "snd (serialize x) = x
   \<and> fst (serialize x) = execution x
   \<and> fst (serialize (snd (serialize x))) = fst (serialize x)
   \<and> executionId (fst (serialize x)) = executionId (execution x)
   \<and> name (fst (serialize x)) = name (execution x)
   \<and> status (fst (serialize x)) = status (execution x)
   \<and> steps (fst (serialize x)) = steps (execution x)
   \<and> createdAt (fst (serialize x)) = createdAt (execution x)
   \<and> completedAt (fst (serialize x)) = completedAt (execution x)
   \<and> duration (fst (serialize x)) = duration (execution x)
   \<and> summary (fst (serialize x)) = summary (execution x)"
  by (simp add: serialize_def)

subsection \<open>The summary across a failure\<close>

text \<open>
  C9. \<open>markFailed\<close> leaves \<open>summary\<close> as it was; after \<open>markComplete\<close> and then
  \<open>markFailed\<close>, the status is failed and the summary is still the one \<open>markComplete\<close>
  wrote.
\<close>

theorem markFailed_keeps_summary:
  "summary (execution (markFailed err now x)) = summary (execution x)
   \<and> status (execution (markFailed err t2 (markComplete f t1 x))) = failed
   \<and> summary (execution (markFailed err t2 (markComplete f t1 x))) =
       Some \<lparr>totalSteps = length (steps (execution x)), finalOutcome = f\<rparr>"
  by (simp add: markFailed_fields execution_markComplete)

subsection \<open>The empty identifier\<close>

text \<open>
  C10. An \<open>executionId\<close> given as the empty string is discarded: the constructor behaves
  as if none was given, and the identifier of the execution is the generated one, never
  the empty string.
\<close>

theorem constructor_empty_id:
  "XRay_constructor nm (Some '''') t r36 t' = XRay_constructor nm None t r36 t'
   \<and> executionId (execution (XRay_constructor nm (Some '''') t r36 t')) =
       ''exec_'' @ show_int t @ ''_'' @ take 9 (drop 2 r36)
   \<and> executionId (execution (XRay_constructor nm (Some '''') t r36 t')) \<noteq> ''''"
  by (simp add: XRay_constructor_def generatedId_def substr_def)

text \<open>The identifier of the README's example: clock 1704067200000, random string
  \<open>0.abc123xyzqq\<close>.\<close>

lemma generatedId_example:
  "executionId (execution (XRay_constructor ''Demo'' None 1704067200000 ''0.abc123xyzqq''
      1704067200000)) = ''exec_1704067200000_abc123xyz''"
  by (simp add: XRay_constructor_def generatedId_def substr_def show_int_def show_nat.simps)

end
